theory Spec2Isabelle
  imports Main "HOL-Library.Sublist"
begin

section \<open>JavaScript values\<close>

text \<open>
  Objects whose shape is declared by the processor's SDK (sessions, payment intents,
  charges) and the extra properties of an input are open JavaScript objects: finite maps
  from property names to values. Numbers are the integers (amounts are minor currency
  units); fractional numbers and NaN are not represented.
\<close>

datatype js_value =
    JUndefined
  | JNull
  | JBool bool
  | JNum int
  | JStr string
  | JArr "js_value list"
  | JObj "string \<Rightarrow> js_value option"

type_synonym js_object = "string \<Rightarrow> js_value option"

text \<open>Property read \<open>o.k\<close> on an object: \<open>undefined\<close> when the property is absent.\<close>

definition get_prop :: "js_object \<Rightarrow> string \<Rightarrow> js_value" where
  "get_prop obj k = (case obj k of None \<Rightarrow> JUndefined | Some v \<Rightarrow> v)"

text \<open>
  The operand of \<open>!x\<close> for a parameter declared \<open>number\<close> or \<open>string\<close>; \<open>None\<close> is
  a parameter that is absent (\<open>undefined\<close>) at run time.
\<close>

definition falsy_number :: "int option \<Rightarrow> bool" where
  "falsy_number x = (case x of None \<Rightarrow> True | Some n \<Rightarrow> n = 0)"

definition falsy_string :: "string option \<Rightarrow> bool" where
  "falsy_string x = (case x of None \<Rightarrow> True | Some s \<Rightarrow> s = [])"

section \<open>utils/errors and utils/customError\<close>

record CustomError =
  name :: string
  message :: string
  code :: nat

text \<open>
  \<open>constructor(message, code = 500)\<close> of the base class; \<open>ctor\<close> is
  \<open>this.constructor.name\<close>, the name of the class being instantiated.
\<close>

definition CustomError_new :: "string \<Rightarrow> string \<Rightarrow> nat option \<Rightarrow> CustomError" where
  "CustomError_new ctor msg code_arg =
     \<lparr>name = ctor, message = msg,
      code = (case code_arg of None \<Rightarrow> 500 | Some c \<Rightarrow> c)\<rparr>"

definition StripeInitializationError :: "string \<Rightarrow> CustomError" where
  "StripeInitializationError msg =
     (CustomError_new ''StripeInitializationError'' msg (Some 400))
       \<lparr>name := ''StripeInitializationError''\<rparr>"

definition MissingRequiredParameterError :: "string \<Rightarrow> CustomError" where
  "MissingRequiredParameterError msg =
     (CustomError_new ''MissingRequiredParameterError'' msg (Some 422))
       \<lparr>name := ''MissingRequiredParameterError''\<rparr>"

definition CheckoutSessionCreationError :: "string \<Rightarrow> CustomError" where
  "CheckoutSessionCreationError msg =
     (CustomError_new ''CheckoutSessionCreationError'' msg (Some 400))
       \<lparr>name := ''CheckoutSessionCreationError''\<rparr>"

definition SessionRetrievalError :: "string \<Rightarrow> CustomError" where
  "SessionRetrievalError msg =
     (CustomError_new ''SessionRetrievalError'' msg (Some 400))
       \<lparr>name := ''SessionRetrievalError''\<rparr>"

definition WebhookSignatureVerificationError :: "string \<Rightarrow> CustomError" where
  "WebhookSignatureVerificationError msg =
     (CustomError_new ''WebhookSignatureVerificationError'' msg (Some 400))
       \<lparr>name := ''WebhookSignatureVerificationError''\<rparr>"

definition WebhookProcessingError :: "string \<Rightarrow> CustomError" where
  "WebhookProcessingError msg =
     (CustomError_new ''WebhookProcessingError'' msg (Some 400))
       \<lparr>name := ''WebhookProcessingError''\<rparr>"

text \<open>
  A thrown value: one of the service's own errors, a value thrown by the SDK, which is
  opaque apart from its string conversion, or the TypeError of the language with its
  message.
\<close>

datatype thrown = CustomErr CustomError | SdkErr string | TypeError string

text \<open>
  \<open>`${err}`\<close>: \<open>Error.prototype.toString\<close> joins name and message with a colon
  and drops an empty part.
\<close>

definition to_string :: "thrown \<Rightarrow> string" where
  "to_string err =
     (case err of
        SdkErr s \<Rightarrow> s
      | TypeError m \<Rightarrow> ''TypeError: '' @ m
      | CustomErr e \<Rightarrow>
          (if name e = [] then message e
           else if message e = [] then name e
           else name e @ '': '' @ message e))"

text \<open>
  Property read \<open>v.k\<close> on any value: it throws a TypeError on \<open>undefined\<close> and
  \<open>null\<close>, reads the property of an object, and is \<open>undefined\<close> on a number, a
  string, a boolean or an array for every name that is not one of their built-in
  properties (the names read in this file are none of those).
\<close>

definition read_prop :: "js_value \<Rightarrow> string \<Rightarrow> thrown + js_value" where
  "read_prop v k =
     (case v of
        JUndefined \<Rightarrow>
          Inl (TypeError (''Cannot read properties of undefined (reading ''
                           @ [CHR 0x27] @ k @ [CHR 0x27] @ '')''))
      | JNull \<Rightarrow>
          Inl (TypeError (''Cannot read properties of null (reading ''
                           @ [CHR 0x27] @ k @ [CHR 0x27] @ '')''))
      | JObj obj \<Rightarrow> Inr (get_prop obj k)
      | _ \<Rightarrow> Inr JUndefined)"

text \<open>
  The property reads of an object literal \<open>{ label: v.k, ... }\<close>, in order; the first
  read that throws ends the evaluation.
\<close>

fun read_fields :: "js_value \<Rightarrow> (string \<times> string) list \<Rightarrow> thrown + (string \<times> js_value) list" where
  "read_fields v [] = Inr []"
| "read_fields v ((label, k) # rest) =
     (case read_prop v k of
        Inl e \<Rightarrow> Inl e
      | Inr x \<Rightarrow>
          (case read_fields v rest of
             Inl e \<Rightarrow> Inl e
           | Inr xs \<Rightarrow> Inr ((label, x) # xs)))"

section \<open>types/stripe-types\<close>

text \<open>
  The four declared properties of the input, each possibly absent at run time, and
  \<open>extra\<close>: the own properties the object carries beyond its declared interface.
\<close>

record CreateCheckoutSessionInput =
  amount :: "int option"
  currency :: "string option"
  successUrl :: "string option"
  cancelUrl :: "string option"
  extra :: js_object

text \<open>\<open>GetCheckoutSessionInput\<close> has the single property \<open>sessionId\<close>.\<close>

type_synonym GetCheckoutSessionInput = "string option"

text \<open>
  An event as \<open>constructEvent\<close> parsed it: its \<open>type\<close> tag, the value of its \<open>data\<close>
  property (\<open>undefined\<close> when the payload has none), and the remaining envelope
  properties of \<open>Stripe.EventBase\<close> (id, created, ...).
\<close>

record StripeWebhookEvent =
  type :: string
  data :: js_value
  base :: js_object

section \<open>The SDK client and the effects of a call\<close>

record Stripe =
  apiKey :: string
  apiVersion :: string
  maxNetworkRetries :: nat

record SessionCreateParams =
  payment_method_types :: "string list"
  line_items :: "js_object list"
  mode :: string
  success_url :: string
  cancel_url :: string
  client_reference_id :: string

text \<open>
  What the SDK and the uuid generator answer during one call of the service: they are
  outside the repository, so the operations take them as a parameter.
\<close>

record Sdk =
  checkout_sessions_create :: "Stripe \<Rightarrow> SessionCreateParams \<Rightarrow> thrown + js_object"
  checkout_sessions_retrieve :: "Stripe \<Rightarrow> string \<Rightarrow> thrown + js_object"
  webhooks_constructEvent ::
    "Stripe \<Rightarrow> string \<Rightarrow> string \<Rightarrow> string \<Rightarrow> thrown + StripeWebhookEvent"
  uuidv4 :: string

datatype effect =
    Call_create SessionCreateParams
  | Call_retrieve string
  | Call_constructEvent string string string
  | ConsoleLog string "(string \<times> js_value) list"
  | ConsoleError string thrown

section \<open>stripeService\<close>

record StripeService =
  stripe :: Stripe
  webhookSecret :: string

record CheckoutSessionResult =
  url :: js_value
  sessionId :: js_value

text \<open>
  The outcome of a public operation: the value returned or the error thrown, the SDK
  calls and console lines in the order they happened, and the service's fields after
  the call.
\<close>

record 'a outcome =
  returned :: "thrown + 'a"
  trace :: "effect list"
  service :: StripeService

definition StripeService_new :: "string option \<Rightarrow> string option \<Rightarrow> thrown + StripeService" where
  "StripeService_new stripeSecretKey secret =
     (if falsy_string stripeSecretKey then
        Inl (CustomErr (StripeInitializationError ''Stripe secret key is required.''))
      else if falsy_string secret then
        Inl (CustomErr (StripeInitializationError ''Stripe webhook secret is required.''))
      else
        Inr \<lparr>stripe = \<lparr>apiKey = the stripeSecretKey, apiVersion = ''2025-01-27.acacia'',
                        maxNetworkRetries = 3\<rparr>,
             webhookSecret = the secret\<rparr>)"

text \<open>
  \<open>const { amount, currency, successUrl, cancelUrl, ...otherLineItemData } = input\<close>:
  the rest pattern collects every own property but the four named ones.
\<close>

definition otherLineItemData :: "CreateCheckoutSessionInput \<Rightarrow> js_object" where
  "otherLineItemData input =
     extra input |` (- {''amount'', ''currency'', ''successUrl'', ''cancelUrl''})"

text \<open>
  The line-item literal \<open>{ price_data: {...}, quantity: 1, ...otherLineItemData }\<close>:
  the spread comes last, so a spread property replaces a literal one of the same name.
\<close>

definition line_item :: "int \<Rightarrow> string \<Rightarrow> js_object \<Rightarrow> js_object" where
  "line_item amt cur other =
     [''price_data'' \<mapsto>
        JObj [''currency'' \<mapsto> JStr cur,
              ''product_data'' \<mapsto> JObj [''name'' \<mapsto> JStr ''Your Product Name''],
              ''unit_amount'' \<mapsto> JNum amt],
      ''quantity'' \<mapsto> JNum 1] ++ other"

text \<open>The argument of \<open>this.stripe.checkout.sessions.create\<close>.\<close>

definition create_params ::
  "int \<Rightarrow> string \<Rightarrow> string \<Rightarrow> string \<Rightarrow> js_object \<Rightarrow> string \<Rightarrow> SessionCreateParams" where
  "create_params amt cur success cancel other uuid =
     \<lparr>payment_method_types = [''card''],
      line_items = [line_item amt cur other],
      mode = ''payment'',
      success_url = success @ ''?session_id={CHECKOUT_SESSION_ID}'',
      cancel_url = cancel,
      client_reference_id = uuid\<rparr>"

text \<open>
  The body of the \<open>try\<close> block. Past the validation the four properties are present,
  so \<open>the\<close> reads a \<open>Some\<close>.
\<close>

definition createCheckoutSession_try ::
  "Sdk \<Rightarrow> StripeService \<Rightarrow> CreateCheckoutSessionInput
     \<Rightarrow> (thrown + CheckoutSessionResult) \<times> effect list" where
  "createCheckoutSession_try sdk svc input =
     (if falsy_number (amount input) \<or> falsy_string (currency input)
         \<or> falsy_string (successUrl input) \<or> falsy_string (cancelUrl input)
      then
        (Inl (CustomErr (MissingRequiredParameterError
                ''Amount, currency, successUrl, and cancelUrl are required.'')), [])
      else
        (let params = create_params (the (amount input)) (the (currency input))
                        (the (successUrl input)) (the (cancelUrl input))
                        (otherLineItemData input) (uuidv4 sdk)
         in case checkout_sessions_create sdk (stripe svc) params of
              Inl e \<Rightarrow> (Inl e, [Call_create params])
            | Inr session \<Rightarrow>
                (Inr \<lparr>url = get_prop session ''url'', sessionId = get_prop session ''id''\<rparr>,
                 [Call_create params])))"

definition createCheckoutSession ::
  "Sdk \<Rightarrow> StripeService \<Rightarrow> CreateCheckoutSessionInput \<Rightarrow> CheckoutSessionResult outcome" where
  "createCheckoutSession sdk svc input =
     (case createCheckoutSession_try sdk svc input of
        (Inr r, tr) \<Rightarrow> \<lparr>returned = Inr r, trace = tr, service = svc\<rparr>
      | (Inl error, tr) \<Rightarrow>
          \<lparr>returned = Inl (CustomErr (CheckoutSessionCreationError
                                        ''Failed to create checkout session.'')),
           trace = tr @ [ConsoleError ''Error creating checkout session:'' error],
           service = svc\<rparr>)"

definition getCheckoutSession_try ::
  "Sdk \<Rightarrow> StripeService \<Rightarrow> GetCheckoutSessionInput \<Rightarrow> (thrown + js_object) \<times> effect list" where
  "getCheckoutSession_try sdk svc input =
     (if falsy_string input then
        (Inl (CustomErr (MissingRequiredParameterError ''Session ID is required.'')), [])
      else
        (case checkout_sessions_retrieve sdk (stripe svc) (the input) of
           Inl e \<Rightarrow> (Inl e, [Call_retrieve (the input)])
         | Inr session \<Rightarrow> (Inr session, [Call_retrieve (the input)])))"

definition getCheckoutSession ::
  "Sdk \<Rightarrow> StripeService \<Rightarrow> GetCheckoutSessionInput \<Rightarrow> js_object outcome" where
  "getCheckoutSession sdk svc input =
     (case getCheckoutSession_try sdk svc input of
        (Inr session, tr) \<Rightarrow> \<lparr>returned = Inr session, trace = tr, service = svc\<rparr>
      | (Inl error, tr) \<Rightarrow>
          \<lparr>returned = Inl (CustomErr (SessionRetrievalError ''Failed to retrieve session.'')),
           trace = tr @ [ConsoleError ''Error retrieving session:'' error],
           service = svc\<rparr>)"

subsection \<open>Event handlers\<close>

text \<open>
  Each handler reads \<open>event.data.object\<close>, then the properties it logs, in the order of
  the object literal (given as label and property name), and returns the event. A read
  on \<open>undefined\<close> or \<open>null\<close> throws before anything is logged.
\<close>

definition handlePaymentIntentCreated ::
  "StripeWebhookEvent \<Rightarrow> (thrown + StripeWebhookEvent) \<times> effect list" where
  "handlePaymentIntentCreated event =
     (case read_prop (data event) ''object'' of
        Inl e \<Rightarrow> (Inl e, [])
      | Inr paymentIntent \<Rightarrow>
          (case read_fields paymentIntent
             [(''id'', ''id''),
              (''amount'', ''amount''),
              (''currency'', ''currency''),
              (''created_at'', ''created'')] of
             Inl e \<Rightarrow> (Inl e, [])
           | Inr logged \<Rightarrow> (Inr event, [ConsoleLog ''Payment Intent Created:'' logged])))"

definition handlePaymentIntentSucceeded ::
  "StripeWebhookEvent \<Rightarrow> (thrown + StripeWebhookEvent) \<times> effect list" where
  "handlePaymentIntentSucceeded event =
     (case read_prop (data event) ''object'' of
        Inl e \<Rightarrow> (Inl e, [])
      | Inr paymentIntent \<Rightarrow>
          (case read_fields paymentIntent
             [(''id'', ''id''),
              (''amount'', ''amount''),
              (''currency'', ''currency''),
              (''status'', ''status''),
              (''receipt_email'', ''receipt_email'')] of
             Inl e \<Rightarrow> (Inl e, [])
           | Inr logged \<Rightarrow> (Inr event, [ConsoleLog ''Payment Intent Succeeded:'' logged])))"

definition handleChargeUpdated ::
  "StripeWebhookEvent \<Rightarrow> (thrown + StripeWebhookEvent) \<times> effect list" where
  "handleChargeUpdated event =
     (case read_prop (data event) ''object'' of
        Inl e \<Rightarrow> (Inl e, [])
      | Inr charge \<Rightarrow>
          (case read_fields charge
             [(''id'', ''id''),
              (''amount'', ''amount''),
              (''paid'', ''paid''),
              (''status'', ''status'')] of
             Inl e \<Rightarrow> (Inl e, [])
           | Inr logged \<Rightarrow> (Inr event, [ConsoleLog ''Charge Updated:'' logged])))"

definition handleChargeSucceeded ::
  "StripeWebhookEvent \<Rightarrow> (thrown + StripeWebhookEvent) \<times> effect list" where
  "handleChargeSucceeded event =
     (case read_prop (data event) ''object'' of
        Inl e \<Rightarrow> (Inl e, [])
      | Inr charge \<Rightarrow>
          (case read_fields charge
             [(''id'', ''id''),
              (''amount'', ''amount''),
              (''payment_method'', ''payment_method''),
              (''status'', ''status'')] of
             Inl e \<Rightarrow> (Inl e, [])
           | Inr logged \<Rightarrow> (Inr event, [ConsoleLog ''Charge Succeeded:'' logged])))"

definition handleCheckoutSessionCompleted ::
  "StripeWebhookEvent \<Rightarrow> (thrown + StripeWebhookEvent) \<times> effect list" where
  "handleCheckoutSessionCompleted event =
     (case read_prop (data event) ''object'' of
        Inl e \<Rightarrow> (Inl e, [])
      | Inr session \<Rightarrow>
          (case read_fields session
             [(''id'', ''id''),
              (''customer'', ''customer''),
              (''payment_status'', ''payment_status''),
              (''amount_total'', ''amount_total''),
              (''currency'', ''currency''),
              (''session_url'', ''url''),
              (''client_reference_id'', ''client_reference_id'')] of
             Inl e \<Rightarrow> (Inl e, [])
           | Inr logged \<Rightarrow> (Inr event, [ConsoleLog ''Checkout Session Completed:'' logged])))"

text \<open>\<open>return this.handleX(event)\<close>: the handler's event is the value returned.\<close>

definition return_event ::
  "(thrown + StripeWebhookEvent) \<times> effect list
     \<Rightarrow> (thrown + StripeWebhookEvent option) \<times> effect list" where
  "return_event r = (case r of (Inl e, tr) \<Rightarrow> (Inl e, tr) | (Inr ev, tr) \<Rightarrow> (Inr (Some ev), tr))"

text \<open>
  The \<open>switch\<close> on \<open>event.type\<close>. The first case has no \<open>break\<close>: were its inner
  test false, control would fall through to the second case's body.
\<close>

definition processWebhookEvent ::
  "StripeWebhookEvent \<Rightarrow> (thrown + StripeWebhookEvent option) \<times> effect list" where
  "processWebhookEvent event =
     (if type event = ''payment_intent.created'' then
        (if type event = ''payment_intent.created''
         then return_event (handlePaymentIntentCreated event)
         else return_event (handlePaymentIntentSucceeded event))
      else if type event = ''payment_intent.succeeded'' then
        return_event (handlePaymentIntentSucceeded event)
      else if type event = ''charge.updated'' then
        return_event (handleChargeUpdated event)
      else if type event = ''charge.succeeded'' then
        return_event (handleChargeSucceeded event)
      else if type event = ''checkout.session.completed'' then
        return_event (handleCheckoutSessionCompleted event)
      else
        (Inr None, [ConsoleLog (''Unhandled event type: '' @ type event) []]))"

definition handleWebhook ::
  "Sdk \<Rightarrow> StripeService \<Rightarrow> string \<Rightarrow> string \<Rightarrow> StripeWebhookEvent option outcome" where
  "handleWebhook sdk svc payload signature =
     (case webhooks_constructEvent sdk (stripe svc) payload signature (webhookSecret svc) of
        Inl err \<Rightarrow>
          \<lparr>returned = Inl (CustomErr (WebhookSignatureVerificationError
                    (''Webhook signature verification failed: '' @ to_string err))),
           trace = [Call_constructEvent payload signature (webhookSecret svc),
                    ConsoleError ''Webhook signature verification failed:'' err],
           service = svc\<rparr>
      | Inr event \<Rightarrow>
          (case processWebhookEvent event of
             (Inr processedEvent, tr) \<Rightarrow>
               \<lparr>returned = Inr processedEvent,
                trace = Call_constructEvent payload signature (webhookSecret svc) # tr,
                service = svc\<rparr>
           | (Inl error, tr) \<Rightarrow>
               \<lparr>returned = Inl (CustomErr (WebhookProcessingError
                         (''Webhook processing error: '' @ to_string error))),
                trace = Call_constructEvent payload signature (webhookSecret svc) # tr
                          @ [ConsoleError ''Webhook processing error:'' error],
                service = svc\<rparr>))"

section \<open>Test doubles\<close>

definition test_service :: StripeService where
  "test_service =
     \<lparr>stripe = \<lparr>apiKey = ''sk_test_123'', apiVersion = ''2025-01-27.acacia'',
                  maxNetworkRetries = 3\<rparr>,
      webhookSecret = ''whsec_test''\<rparr>"

definition test_session :: js_object where
  "test_session =
     [''id'' \<mapsto> JStr ''cs_test_1'',
      ''url'' \<mapsto> JStr ''https://checkout.stripe.com/c/pay/cs_test_1'',
      ''payment_status'' \<mapsto> JStr ''unpaid'']"

definition test_payment_intent :: js_object where
  "test_payment_intent =
     [''id'' \<mapsto> JStr ''pi_1'', ''amount'' \<mapsto> JNum 500,
      ''currency'' \<mapsto> JStr ''usd'', ''status'' \<mapsto> JStr ''succeeded'']"

definition test_event :: "string \<Rightarrow> StripeWebhookEvent" where
  "test_event t =
     \<lparr>type = t,
      data = JObj [''object'' \<mapsto> JObj test_payment_intent],
      base = [''id'' \<mapsto> JStr ''evt_1'', ''created'' \<mapsto> JNum 1700000000]\<rparr>"

text \<open>A signed payload that has a type and an id but no \<open>data\<close>.\<close>

definition test_event_without_data :: "string \<Rightarrow> StripeWebhookEvent" where
  "test_event_without_data t =
     \<lparr>type = t, data = JUndefined, base = [''id'' \<mapsto> JStr ''evt_2'']\<rparr>"

text \<open>An extra input property \<open>price_data\<close> with a unit amount of its own.\<close>

definition test_price_data :: js_object where
  "test_price_data =
     [''currency'' \<mapsto> JStr ''usd'',
      ''product_data'' \<mapsto> JObj [''name'' \<mapsto> JStr ''Gift card''],
      ''unit_amount'' \<mapsto> JNum 100]"

text \<open>
  An SDK that creates and retrieves \<open>test_session\<close>, and accepts exactly the signature
  \<open>''t=1,v1=good''\<close>, for which the payload is the event \<open>ev\<close>.
\<close>

definition test_sdk :: "StripeWebhookEvent \<Rightarrow> Sdk" where
  "test_sdk ev =
     \<lparr>checkout_sessions_create = (\<lambda>client params. Inr test_session),
      checkout_sessions_retrieve = (\<lambda>client sid. Inr test_session),
      webhooks_constructEvent = (\<lambda>client payload signature secret.
         if signature = ''t=1,v1=good'' then Inr ev
         else Inl (SdkErr ''StripeSignatureVerificationError: No signatures found matching the expected signature for payload.'')),
      uuidv4 = ''3b241101-e2bb-4255-8caf-4136c566a962''\<rparr>"

definition test_input :: "int \<Rightarrow> js_object \<Rightarrow> CreateCheckoutSessionInput" where
  "test_input amt other =
     \<lparr>amount = Some amt, currency = Some ''usd'', successUrl = Some ''https://x/ok'',
      cancelUrl = Some ''https://x/cancel'', extra = other\<rparr>"

section \<open>Facts about the operations\<close>

lemmas handler_defs =
  handlePaymentIntentCreated_def handlePaymentIntentSucceeded_def handleChargeUpdated_def
  handleChargeSucceeded_def handleCheckoutSessionCompleted_def

lemma read_prop_defined:
  "v \<noteq> JUndefined \<Longrightarrow> v \<noteq> JNull \<Longrightarrow> \<exists>x. read_prop v k = Inr x"
  by (cases v) (simp_all add: read_prop_def)

lemma read_fields_defined:
  "v \<noteq> JUndefined \<Longrightarrow> v \<noteq> JNull \<Longrightarrow> \<exists>xs. read_fields v ks = Inr xs"
proof (induction ks)
  case Nil
  show ?case by simp
next
  case (Cons p ks)
  obtain label k where p: "p = (label, k)" by (cases p)
  from Cons.prems obtain x where x: "read_prop v k = Inr x"
    using read_prop_defined by blast
  from Cons obtain xs where xs: "read_fields v ks = Inr xs" by blast
  show ?case by (simp add: p x xs)
qed

lemma read_fields_nullish:
  "v = JUndefined \<or> v = JNull \<Longrightarrow> \<exists>e. read_fields v ((label, k) # ks) = Inl e"
  by (auto simp: read_prop_def)

text \<open>
  With an object (or any value but \<open>undefined\<close> and \<open>null\<close>) under \<open>data.object\<close>,
  a handler logs one line and returns its event; otherwise it throws before logging.
\<close>

lemma handlers_return:
  assumes "read_prop (data ev) ''object'' = Inr obj" "obj \<noteq> JUndefined" "obj \<noteq> JNull"
  shows "\<exists>fields. handlePaymentIntentCreated ev =
           (Inr ev, [ConsoleLog ''Payment Intent Created:'' fields])"
    and "\<exists>fields. handlePaymentIntentSucceeded ev =
           (Inr ev, [ConsoleLog ''Payment Intent Succeeded:'' fields])"
    and "\<exists>fields. handleChargeUpdated ev = (Inr ev, [ConsoleLog ''Charge Updated:'' fields])"
    and "\<exists>fields. handleChargeSucceeded ev = (Inr ev, [ConsoleLog ''Charge Succeeded:'' fields])"
    and "\<exists>fields. handleCheckoutSessionCompleted ev =
           (Inr ev, [ConsoleLog ''Checkout Session Completed:'' fields])"
proof -
  have "\<exists>xs. read_fields obj ks = Inr xs" for ks
    using assms(2,3) by (rule read_fields_defined)
  then have r: "\<And>ks. \<exists>xs. read_fields obj ks = Inr xs" .
  show "\<exists>fields. handlePaymentIntentCreated ev =
           (Inr ev, [ConsoleLog ''Payment Intent Created:'' fields])"
    using r [of "[(''id'', ''id''), (''amount'', ''amount''), (''currency'', ''currency''),
                  (''created_at'', ''created'')]"]
    unfolding handlePaymentIntentCreated_def assms(1) by auto
  show "\<exists>fields. handlePaymentIntentSucceeded ev =
           (Inr ev, [ConsoleLog ''Payment Intent Succeeded:'' fields])"
    using r [of "[(''id'', ''id''), (''amount'', ''amount''), (''currency'', ''currency''),
                  (''status'', ''status''), (''receipt_email'', ''receipt_email'')]"]
    unfolding handlePaymentIntentSucceeded_def assms(1) by auto
  show "\<exists>fields. handleChargeUpdated ev = (Inr ev, [ConsoleLog ''Charge Updated:'' fields])"
    using r [of "[(''id'', ''id''), (''amount'', ''amount''), (''paid'', ''paid''),
                  (''status'', ''status'')]"]
    unfolding handleChargeUpdated_def assms(1) by auto
  show "\<exists>fields. handleChargeSucceeded ev = (Inr ev, [ConsoleLog ''Charge Succeeded:'' fields])"
    using r [of "[(''id'', ''id''), (''amount'', ''amount''),
                  (''payment_method'', ''payment_method''), (''status'', ''status'')]"]
    unfolding handleChargeSucceeded_def assms(1) by auto
  show "\<exists>fields. handleCheckoutSessionCompleted ev =
           (Inr ev, [ConsoleLog ''Checkout Session Completed:'' fields])"
    using r [of "[(''id'', ''id''), (''customer'', ''customer''),
                  (''payment_status'', ''payment_status''), (''amount_total'', ''amount_total''),
                  (''currency'', ''currency''), (''session_url'', ''url''),
                  (''client_reference_id'', ''client_reference_id'')]"]
    unfolding handleCheckoutSessionCompleted_def assms(1) by auto
qed

lemma handlers_throw:
  assumes "(\<exists>e. read_prop (data ev) ''object'' = Inl e)
           \<or> read_prop (data ev) ''object'' = Inr JUndefined
           \<or> read_prop (data ev) ''object'' = Inr JNull"
  shows "\<exists>e. handlePaymentIntentCreated ev = (Inl e, [])"
    and "\<exists>e. handlePaymentIntentSucceeded ev = (Inl e, [])"
    and "\<exists>e. handleChargeUpdated ev = (Inl e, [])"
    and "\<exists>e. handleChargeSucceeded ev = (Inl e, [])"
    and "\<exists>e. handleCheckoutSessionCompleted ev = (Inl e, [])"
  using assms by (auto simp: handler_defs read_prop_def)

lemma handlers_log_or_throw:
  "(\<exists>label fields. ConsoleLog label fields \<in> set (snd (handlePaymentIntentCreated ev)))
     \<or> (\<exists>e. fst (handlePaymentIntentCreated ev) = Inl e)"
  "(\<exists>label fields. ConsoleLog label fields \<in> set (snd (handlePaymentIntentSucceeded ev)))
     \<or> (\<exists>e. fst (handlePaymentIntentSucceeded ev) = Inl e)"
  "(\<exists>label fields. ConsoleLog label fields \<in> set (snd (handleChargeUpdated ev)))
     \<or> (\<exists>e. fst (handleChargeUpdated ev) = Inl e)"
  "(\<exists>label fields. ConsoleLog label fields \<in> set (snd (handleChargeSucceeded ev)))
     \<or> (\<exists>e. fst (handleChargeSucceeded ev) = Inl e)"
  "(\<exists>label fields. ConsoleLog label fields \<in> set (snd (handleCheckoutSessionCompleted ev)))
     \<or> (\<exists>e. fst (handleCheckoutSessionCompleted ev) = Inl e)"
  by (auto simp: handler_defs split: sum.splits)

lemma return_event_log_or_throw:
  assumes "(\<exists>label fields. ConsoleLog label fields \<in> set (snd r)) \<or> (\<exists>e. fst r = Inl e)"
  shows "(\<exists>label fields. ConsoleLog label fields \<in> set (snd (return_event r)))
           \<or> (\<exists>e. fst (return_event r) = Inl e)"
  using assms by (cases r) (auto simp: return_event_def split: sum.splits)

lemma processWebhookEvent_logs_or_throws:
  "(\<exists>label fields. ConsoleLog label fields \<in> set (snd (processWebhookEvent ev)))
     \<or> (\<exists>e. fst (processWebhookEvent ev) = Inl e)"
  unfolding processWebhookEvent_def
  using handlers_log_or_throw [of ev, THEN return_event_log_or_throw]
  by simp

lemma processWebhookEvent_unrecognized:
  assumes "type ev \<notin> {''payment_intent.created'', ''payment_intent.succeeded'',
             ''charge.updated'', ''charge.succeeded'', ''checkout.session.completed''}"
  shows "processWebhookEvent ev = (Inr None, [ConsoleLog (''Unhandled event type: '' @ type ev) []])"
  using assms by (simp add: processWebhookEvent_def)

lemma processWebhookEvent_recognized:
  assumes "type ev \<in> {''payment_intent.created'', ''payment_intent.succeeded'',
             ''charge.updated'', ''charge.succeeded'', ''checkout.session.completed''}"
    and "read_prop (data ev) ''object'' = Inr obj" "obj \<noteq> JUndefined" "obj \<noteq> JNull"
  shows "fst (processWebhookEvent ev) = Inr (Some ev)"
  using assms(1) handlers_return [OF assms(2-4)]
  by (auto simp: processWebhookEvent_def return_event_def)

lemma processWebhookEvent_throws:
  assumes "type ev \<in> {''payment_intent.created'', ''payment_intent.succeeded'',
             ''charge.updated'', ''charge.succeeded'', ''checkout.session.completed''}"
    and "(\<exists>e. read_prop (data ev) ''object'' = Inl e)
         \<or> read_prop (data ev) ''object'' = Inr JUndefined
         \<or> read_prop (data ev) ''object'' = Inr JNull"
  shows "\<exists>e. processWebhookEvent ev = (Inl e, [])"
  using assms(1) handlers_throw [OF assms(2)]
  by (auto simp: processWebhookEvent_def return_event_def)

lemma createCheckoutSession_invalid:
  assumes "amount input = None \<or> amount input = Some 0
           \<or> currency input = None \<or> currency input = Some []
           \<or> successUrl input = None \<or> successUrl input = Some []
           \<or> cancelUrl input = None \<or> cancelUrl input = Some []"
  shows "createCheckoutSession sdk svc input =
           \<lparr>returned = Inl (CustomErr (CheckoutSessionCreationError
                                         ''Failed to create checkout session.'')),
            trace = [ConsoleError ''Error creating checkout session:''
                       (CustomErr (MissingRequiredParameterError
                          ''Amount, currency, successUrl, and cancelUrl are required.''))],
            service = svc\<rparr>"
proof -
  from assms have "falsy_number (amount input) \<or> falsy_string (currency input)
         \<or> falsy_string (successUrl input) \<or> falsy_string (cancelUrl input)"
    by (auto simp: falsy_number_def falsy_string_def)
  then show ?thesis
    by (simp add: createCheckoutSession_def createCheckoutSession_try_def)
qed

lemma createCheckoutSession_valid:
  assumes "amount input = Some a" "a \<noteq> 0" "currency input = Some c" "c \<noteq> []"
    "successUrl input = Some su" "su \<noteq> []" "cancelUrl input = Some cu" "cu \<noteq> []"
  shows "createCheckoutSession sdk svc input =
           (case checkout_sessions_create sdk (stripe svc)
                   (create_params a c su cu (otherLineItemData input) (uuidv4 sdk)) of
              Inl e \<Rightarrow>
                \<lparr>returned = Inl (CustomErr (CheckoutSessionCreationError
                                              ''Failed to create checkout session.'')),
                 trace = [Call_create (create_params a c su cu (otherLineItemData input) (uuidv4 sdk)),
                          ConsoleError ''Error creating checkout session:'' e],
                 service = svc\<rparr>
            | Inr session \<Rightarrow>
                \<lparr>returned = Inr \<lparr>url = get_prop session ''url'', sessionId = get_prop session ''id''\<rparr>,
                 trace = [Call_create (create_params a c su cu (otherLineItemData input) (uuidv4 sdk))],
                 service = svc\<rparr>)"
  using assms
  by (simp add: createCheckoutSession_def createCheckoutSession_try_def falsy_number_def
      falsy_string_def Let_def split: sum.split)

lemma createCheckoutSession_valid_trace:
  assumes "amount input = Some a" "a \<noteq> 0" "currency input = Some c" "c \<noteq> []"
    "successUrl input = Some su" "su \<noteq> []" "cancelUrl input = Some cu" "cu \<noteq> []"
  shows "trace (createCheckoutSession sdk svc input) =
           Call_create (create_params a c su cu (otherLineItemData input) (uuidv4 sdk))
           # (case checkout_sessions_create sdk (stripe svc)
                     (create_params a c su cu (otherLineItemData input) (uuidv4 sdk)) of
                Inl e \<Rightarrow> [ConsoleError ''Error creating checkout session:'' e]
              | Inr session \<Rightarrow> [])"
  by (simp add: createCheckoutSession_valid [OF assms] split: sum.split)

lemma createCheckoutSession_Inr_valid:
  assumes "returned (createCheckoutSession sdk svc input) = Inr r"
  shows "\<exists>a c su cu. amount input = Some a \<and> a \<noteq> 0 \<and> currency input = Some c \<and> c \<noteq> []
           \<and> successUrl input = Some su \<and> su \<noteq> [] \<and> cancelUrl input = Some cu \<and> cu \<noteq> []"
proof (rule ccontr)
  assume "\<not> ?thesis"
  then have "amount input = None \<or> amount input = Some 0
           \<or> currency input = None \<or> currency input = Some []
           \<or> successUrl input = None \<or> successUrl input = Some []
           \<or> cancelUrl input = None \<or> cancelUrl input = Some []"
    by (cases "amount input"; cases "currency input"; cases "successUrl input";
        cases "cancelUrl input") auto
  from createCheckoutSession_invalid [OF this, of sdk svc] assms show False by simp
qed

lemma otherLineItemData_absent:
  "extra input k = None \<Longrightarrow> otherLineItemData input k = None"
  by (simp add: otherLineItemData_def restrict_map_def)

lemma otherLineItemData_present:
  "k \<notin> {''amount'', ''currency'', ''successUrl'', ''cancelUrl''} \<Longrightarrow>
     otherLineItemData input k = extra input k"
  by (simp add: otherLineItemData_def restrict_map_def)

lemma line_item_spread:
  "other k = Some v \<Longrightarrow> line_item a c other k = Some v"
  by (simp add: line_item_def map_add_def)

lemma line_item_price_data:
  "other ''price_data'' = None \<Longrightarrow>
     line_item a c other ''price_data'' =
       Some (JObj [''currency'' \<mapsto> JStr c,
                   ''product_data'' \<mapsto> JObj [''name'' \<mapsto> JStr ''Your Product Name''],
                   ''unit_amount'' \<mapsto> JNum a])"
  by (simp add: line_item_def map_add_def)

lemma line_item_quantity:
  "other ''quantity'' = None \<Longrightarrow> line_item a c other ''quantity'' = Some (JNum 1)"
  by (simp add: line_item_def map_add_def)

section \<open>Error taxonomy\<close>

text \<open>
  C8. Every error class has a fixed status code, whatever the message: 422 for
  MissingRequiredParameterError and 400 for the five others. Each class passes its code
  to the base constructor, so the base default of 500 is the code of none of them.
\<close>

theorem error_codes_fixed:
  "code (MissingRequiredParameterError m) = 422
   \<and> code (StripeInitializationError m) = 400
   \<and> code (CheckoutSessionCreationError m) = 400
   \<and> code (SessionRetrievalError m) = 400
   \<and> code (WebhookSignatureVerificationError m) = 400
   \<and> code (WebhookProcessingError m) = 400
   \<and> code (CustomError_new c m None) = 500
   \<and> code (MissingRequiredParameterError m) \<noteq> code (CustomError_new c m None)
   \<and> code (StripeInitializationError m) \<noteq> code (CustomError_new c m None)
   \<and> code (CheckoutSessionCreationError m) \<noteq> code (CustomError_new c m None)
   \<and> code (SessionRetrievalError m) \<noteq> code (CustomError_new c m None)
   \<and> code (WebhookSignatureVerificationError m) \<noteq> code (CustomError_new c m None)
   \<and> code (WebhookProcessingError m) \<noteq> code (CustomError_new c m None)"
  by (simp add: MissingRequiredParameterError_def StripeInitializationError_def
      CheckoutSessionCreationError_def SessionRetrievalError_def
      WebhookSignatureVerificationError_def WebhookProcessingError_def CustomError_new_def)

text \<open>The codes of the six classes for one message, next to the base default.\<close>

theorem error_codes_fixed_witness:
  "code (MissingRequiredParameterError ''Session ID is required.'') = 422
   \<and> code (StripeInitializationError ''Stripe secret key is required.'') = 400
   \<and> code (CheckoutSessionCreationError ''Failed to create checkout session.'') = 400
   \<and> code (SessionRetrievalError ''Failed to retrieve session.'') = 400
   \<and> code (WebhookSignatureVerificationError ''x'') = 400
   \<and> code (WebhookProcessingError ''x'') = 400
   \<and> code (CustomError_new ''CustomError'' ''x'' None) = 500"
  using error_codes_fixed [of "''Session ID is required.''" "''CustomError''"]
    error_codes_fixed [of "''Stripe secret key is required.''" "''CustomError''"]
    error_codes_fixed [of "''Failed to create checkout session.''" "''CustomError''"]
    error_codes_fixed [of "''Failed to retrieve session.''" "''CustomError''"]
    error_codes_fixed [of "''x''" "''CustomError''"]
  by simp

section \<open>Webhook handling\<close>

text \<open>
  C1. When the SDK's \<open>constructEvent\<close> throws for a payload and signature header,
  \<open>handleWebhook\<close> throws a WebhookSignatureVerificationError whose message carries the
  SDK's error, and does nothing but the verification call and one \<open>console.error\<close>
  line: no event is returned and no handler runs. Every run of the dispatch writes a
  \<open>console.log\<close> line or throws, which \<open>handleWebhook\<close> reports on a
  \<open>Webhook processing error:\<close> line; the trace of the failed call has neither line.
\<close>

theorem handleWebhook_invalid_signature:
  assumes "webhooks_constructEvent sdk (stripe svc) payload signature (webhookSecret svc) = Inl err"
  shows "handleWebhook sdk svc payload signature =
           \<lparr>returned = Inl (CustomErr (WebhookSignatureVerificationError
                      (''Webhook signature verification failed: '' @ to_string err))),
            trace = [Call_constructEvent payload signature (webhookSecret svc),
                     ConsoleError ''Webhook signature verification failed:'' err],
            service = svc\<rparr>
         \<and> name (WebhookSignatureVerificationError
                      (''Webhook signature verification failed: '' @ to_string err)) = ''WebhookSignatureVerificationError''
         \<and> (\<forall>label fields. ConsoleLog label fields \<notin> set (trace (handleWebhook sdk svc payload signature)))
         \<and> (\<forall>e. ConsoleError ''Webhook processing error:'' e
                  \<notin> set (trace (handleWebhook sdk svc payload signature)))
         \<and> (\<forall>ev. (\<exists>label fields. ConsoleLog label fields \<in> set (snd (processWebhookEvent ev)))
                  \<or> (\<exists>e. fst (processWebhookEvent ev) = Inl e))"
  using assms processWebhookEvent_logs_or_throws
  by (simp add: handleWebhook_def WebhookSignatureVerificationError_def)

text \<open>A bad signature at the test SDK.\<close>

theorem handleWebhook_invalid_signature_witness:
  "webhooks_constructEvent (test_sdk (test_event ''payment_intent.succeeded'')) (stripe test_service) ''{}'' ''t=1,v1=bad'' (webhookSecret test_service) = Inl (SdkErr ''StripeSignatureVerificationError: No signatures found matching the expected signature for payload.'')
  \<and> returned (handleWebhook (test_sdk (test_event ''payment_intent.succeeded'')) test_service ''{}'' ''t=1,v1=bad'')
     = Inl (CustomErr \<lparr>name = ''WebhookSignatureVerificationError'', message = ''Webhook signature verification failed: StripeSignatureVerificationError: No signatures found matching the expected signature for payload.'', code = 400\<rparr>)
  \<and> trace (handleWebhook (test_sdk (test_event ''payment_intent.succeeded'')) test_service ''{}'' ''t=1,v1=bad'')
     = [Call_constructEvent ''{}'' ''t=1,v1=bad'' ''whsec_test'', ConsoleError ''Webhook signature verification failed:'' (SdkErr ''StripeSignatureVerificationError: No signatures found matching the expected signature for payload.'')]"
proof -
  have h: "webhooks_constructEvent (test_sdk (test_event ''payment_intent.succeeded'')) (stripe test_service) ''{}'' ''t=1,v1=bad'' (webhookSecret test_service) = Inl (SdkErr ''StripeSignatureVerificationError: No signatures found matching the expected signature for payload.'')"
    by (simp add: test_sdk_def)
  show ?thesis
    using h handleWebhook_invalid_signature [OF h]
    by (simp add: WebhookSignatureVerificationError_def CustomError_new_def to_string_def test_service_def)
qed

text \<open>
  C3. When verification succeeds with an event whose type is none of the five recognized
  ones, \<open>handleWebhook\<close> returns \<open>null\<close> and throws nothing; it logs the unhandled
  type.
\<close>

theorem handleWebhook_unrecognized_type:
  assumes "webhooks_constructEvent sdk (stripe svc) payload signature (webhookSecret svc) = Inr ev"
    and "type ev \<notin> {''payment_intent.created'', ''payment_intent.succeeded'',
             ''charge.updated'', ''charge.succeeded'', ''checkout.session.completed''}"
  shows "handleWebhook sdk svc payload signature =
           \<lparr>returned = Inr None,
            trace = [Call_constructEvent payload signature (webhookSecret svc),
                     ConsoleLog (''Unhandled event type: '' @ type ev) []],
            service = svc\<rparr>"
  using assms(1) processWebhookEvent_unrecognized [OF assms(2)]
  by (simp add: handleWebhook_def)

text \<open>A verified \<open>invoice.paid\<close> event.\<close>

theorem handleWebhook_unrecognized_type_witness:
  "webhooks_constructEvent (test_sdk (test_event ''invoice.paid'')) (stripe test_service)
      ''{}'' ''t=1,v1=good'' (webhookSecret test_service) = Inr (test_event ''invoice.paid'')
   \<and> type (test_event ''invoice.paid'') \<notin> {''payment_intent.created'', ''payment_intent.succeeded'',
             ''charge.updated'', ''charge.succeeded'', ''checkout.session.completed''}
   \<and> returned (handleWebhook (test_sdk (test_event ''invoice.paid'')) test_service
        ''{}'' ''t=1,v1=good'') = Inr None
   \<and> trace (handleWebhook (test_sdk (test_event ''invoice.paid'')) test_service
        ''{}'' ''t=1,v1=good'') =
       [Call_constructEvent ''{}'' ''t=1,v1=good'' ''whsec_test'',
        ConsoleLog ''Unhandled event type: invoice.paid'' []]"
proof -
  have h: "webhooks_constructEvent (test_sdk (test_event ''invoice.paid'')) (stripe test_service)
      ''{}'' ''t=1,v1=good'' (webhookSecret test_service) = Inr (test_event ''invoice.paid'')"
    by (simp add: test_sdk_def)
  have t: "type (test_event ''invoice.paid'') \<notin> {''payment_intent.created'', ''payment_intent.succeeded'',
             ''charge.updated'', ''charge.succeeded'', ''checkout.session.completed''}"
    by (simp add: test_event_def)
  show ?thesis
    using h t handleWebhook_unrecognized_type [OF h t]
    by (simp add: test_event_def test_service_def)
qed

text \<open>
  C4, as amended. When verification succeeds with an event whose type is one of the five
  recognized ones and whose \<open>data.object\<close> is neither \<open>undefined\<close> nor \<open>null\<close>,
  \<open>handleWebhook\<close> returns that very event: same type tag, same data, same envelope.
  When the event has no \<open>data\<close>, or its \<open>data.object\<close> is \<open>undefined\<close> or
  \<open>null\<close>, the handler throws and \<open>handleWebhook\<close> throws a WebhookProcessingError
  instead.
\<close>

theorem handleWebhook_recognized_type:
  assumes "webhooks_constructEvent sdk (stripe svc) payload signature (webhookSecret svc) = Inr ev"
    and "type ev \<in> {''payment_intent.created'', ''payment_intent.succeeded'',
             ''charge.updated'', ''charge.succeeded'', ''checkout.session.completed''}"
  shows "(\<forall>obj. read_prop (data ev) ''object'' = Inr obj \<and> obj \<noteq> JUndefined \<and> obj \<noteq> JNull \<longrightarrow>
            returned (handleWebhook sdk svc payload signature) = Inr (Some ev))
         \<and> ((\<exists>e. read_prop (data ev) ''object'' = Inl e)
              \<or> read_prop (data ev) ''object'' = Inr JUndefined
              \<or> read_prop (data ev) ''object'' = Inr JNull \<longrightarrow>
            (\<exists>e. returned (handleWebhook sdk svc payload signature) =
                    Inl (CustomErr (WebhookProcessingError
                           (''Webhook processing error: '' @ to_string e)))))"
proof (intro conjI allI impI)
  fix obj
  assume "read_prop (data ev) ''object'' = Inr obj \<and> obj \<noteq> JUndefined \<and> obj \<noteq> JNull"
  then have "fst (processWebhookEvent ev) = Inr (Some ev)"
    using processWebhookEvent_recognized [OF assms(2)] by blast
  then obtain tr where "processWebhookEvent ev = (Inr (Some ev), tr)"
    by (cases "processWebhookEvent ev") simp
  with assms(1) show "returned (handleWebhook sdk svc payload signature) = Inr (Some ev)"
    by (simp add: handleWebhook_def)
next
  assume "(\<exists>e. read_prop (data ev) ''object'' = Inl e)
              \<or> read_prop (data ev) ''object'' = Inr JUndefined
              \<or> read_prop (data ev) ''object'' = Inr JNull"
  from processWebhookEvent_throws [OF assms(2) this]
  obtain e where "processWebhookEvent ev = (Inl e, [])" by blast
  with assms(1) have "returned (handleWebhook sdk svc payload signature) =
                    Inl (CustomErr (WebhookProcessingError
                           (''Webhook processing error: '' @ to_string e)))"
    by (simp add: handleWebhook_def)
  then show "\<exists>e. returned (handleWebhook sdk svc payload signature) =
                    Inl (CustomErr (WebhookProcessingError
                           (''Webhook processing error: '' @ to_string e)))"
    by blast
qed

text \<open>A verified \<open>payment_intent.succeeded\<close> event comes back with its type and ids.\<close>

theorem handleWebhook_recognized_type_witness:
  "webhooks_constructEvent (test_sdk (test_event ''payment_intent.succeeded''))
      (stripe test_service) ''{}'' ''t=1,v1=good'' (webhookSecret test_service) =
     Inr (test_event ''payment_intent.succeeded'')
   \<and> type (test_event ''payment_intent.succeeded'') \<in> {''payment_intent.created'', ''payment_intent.succeeded'',
             ''charge.updated'', ''charge.succeeded'', ''checkout.session.completed''}
   \<and> read_prop (data (test_event ''payment_intent.succeeded'')) ''object'' =
       Inr (JObj test_payment_intent)
   \<and> JObj test_payment_intent \<noteq> JUndefined \<and> JObj test_payment_intent \<noteq> JNull
   \<and> returned (handleWebhook (test_sdk (test_event ''payment_intent.succeeded'')) test_service
        ''{}'' ''t=1,v1=good'') = Inr (Some (test_event ''payment_intent.succeeded''))
   \<and> type (test_event ''payment_intent.succeeded'') = ''payment_intent.succeeded''
   \<and> base (test_event ''payment_intent.succeeded'') ''id'' = Some (JStr ''evt_1'')
   \<and> test_payment_intent ''id'' = Some (JStr ''pi_1'')"
proof -
  have h: "webhooks_constructEvent (test_sdk (test_event ''payment_intent.succeeded''))
      (stripe test_service) ''{}'' ''t=1,v1=good'' (webhookSecret test_service) =
     Inr (test_event ''payment_intent.succeeded'')"
    by (simp add: test_sdk_def)
  have t: "type (test_event ''payment_intent.succeeded'') \<in> {''payment_intent.created'', ''payment_intent.succeeded'',
             ''charge.updated'', ''charge.succeeded'', ''checkout.session.completed''}"
    by (simp add: test_event_def)
  have d: "read_prop (data (test_event ''payment_intent.succeeded'')) ''object'' =
       Inr (JObj test_payment_intent)"
    by (simp add: test_event_def read_prop_def get_prop_def)
  have n: "JObj test_payment_intent \<noteq> JUndefined \<and> JObj test_payment_intent \<noteq> JNull"
    by simp
  have r: "returned (handleWebhook (test_sdk (test_event ''payment_intent.succeeded''))
      test_service ''{}'' ''t=1,v1=good'') = Inr (Some (test_event ''payment_intent.succeeded''))"
    using handleWebhook_recognized_type [OF h t] d n by blast
  have i: "type (test_event ''payment_intent.succeeded'') = ''payment_intent.succeeded''"
    "base (test_event ''payment_intent.succeeded'') ''id'' = Some (JStr ''evt_1'')"
    "test_payment_intent ''id'' = Some (JStr ''pi_1'')"
    by (simp_all add: test_event_def test_payment_intent_def)
  from h t d n r i show ?thesis by blast
qed

text \<open>
  C4 as stated fails: a verified \<open>payment_intent.succeeded\<close> event without \<open>data\<close>
  is not returned; the handler's read of \<open>event.data.object\<close> throws, and
  \<open>handleWebhook\<close> throws a WebhookProcessingError.
\<close>

theorem handleWebhook_recognized_type_counterexample:
  "webhooks_constructEvent (test_sdk (test_event_without_data ''payment_intent.succeeded''))
      (stripe test_service) ''{}'' ''t=1,v1=good'' (webhookSecret test_service) =
     Inr (test_event_without_data ''payment_intent.succeeded'')
   \<and> type (test_event_without_data ''payment_intent.succeeded'') = ''payment_intent.succeeded''
   \<and> returned (handleWebhook (test_sdk (test_event_without_data ''payment_intent.succeeded''))
        test_service ''{}'' ''t=1,v1=good'') =
       Inl (CustomErr \<lparr>name = ''WebhookProcessingError'',
              message = ''Webhook processing error: TypeError: Cannot read properties of undefined (reading 'object')'',
              code = 400\<rparr>)
   \<and> returned (handleWebhook (test_sdk (test_event_without_data ''payment_intent.succeeded''))
        test_service ''{}'' ''t=1,v1=good'') \<noteq>
       Inr (Some (test_event_without_data ''payment_intent.succeeded''))"
  by (simp add: handleWebhook_def processWebhookEvent_def return_event_def
      handlePaymentIntentSucceeded_def read_prop_def test_sdk_def test_event_without_data_def
      to_string_def WebhookProcessingError_def CustomError_new_def)

section \<open>Checkout session creation\<close>

text \<open>
  C2. When any of \<open>amount\<close>, \<open>currency\<close>, \<open>successUrl\<close>, \<open>cancelUrl\<close> is absent or
  falsy (zero, the empty string), \<open>createCheckoutSession\<close> throws a
  CheckoutSessionCreationError (code 400) and never a MissingRequiredParameterError: the
  latter is thrown inside the \<open>try\<close> block, caught there, logged and replaced. The SDK
  is not called.
\<close>

theorem createCheckoutSession_missing_field:
  assumes "amount input = None \<or> amount input = Some 0
           \<or> currency input = None \<or> currency input = Some []
           \<or> successUrl input = None \<or> successUrl input = Some []
           \<or> cancelUrl input = None \<or> cancelUrl input = Some []"
  shows "returned (createCheckoutSession sdk svc input) =
           Inl (CustomErr \<lparr>name = ''CheckoutSessionCreationError'',
                           message = ''Failed to create checkout session.'', code = 400\<rparr>)
         \<and> (\<forall>m. returned (createCheckoutSession sdk svc input) \<noteq>
                  Inl (CustomErr (MissingRequiredParameterError m)))
         \<and> trace (createCheckoutSession sdk svc input) =
             [ConsoleError ''Error creating checkout session:''
                (CustomErr (MissingRequiredParameterError
                   ''Amount, currency, successUrl, and cancelUrl are required.''))]"
  by (simp add: createCheckoutSession_invalid [OF assms] CheckoutSessionCreationError_def
      MissingRequiredParameterError_def CustomError_new_def)

text \<open>One input without \<open>amount\<close>, one with an empty \<open>cancelUrl\<close>.\<close>

theorem createCheckoutSession_missing_field_witness:
  "amount ((test_input 500 Map.empty)\<lparr>amount := None\<rparr>) = None
   \<and> returned (createCheckoutSession (test_sdk (test_event ''charge.updated'')) test_service
        ((test_input 500 Map.empty)\<lparr>amount := None\<rparr>)) =
       Inl (CustomErr \<lparr>name = ''CheckoutSessionCreationError'',
                       message = ''Failed to create checkout session.'', code = 400\<rparr>)
   \<and> cancelUrl ((test_input 500 Map.empty)\<lparr>cancelUrl := Some []\<rparr>) = Some []
   \<and> returned (createCheckoutSession (test_sdk (test_event ''charge.updated'')) test_service
        ((test_input 500 Map.empty)\<lparr>cancelUrl := Some []\<rparr>)) =
       Inl (CustomErr \<lparr>name = ''CheckoutSessionCreationError'',
                       message = ''Failed to create checkout session.'', code = 400\<rparr>)
   \<and> trace (createCheckoutSession (test_sdk (test_event ''charge.updated'')) test_service
        ((test_input 500 Map.empty)\<lparr>cancelUrl := Some []\<rparr>)) =
       [ConsoleError ''Error creating checkout session:''
          (CustomErr \<lparr>name = ''MissingRequiredParameterError'',
                      message = ''Amount, currency, successUrl, and cancelUrl are required.'',
                      code = 422\<rparr>)]"
  using createCheckoutSession_missing_field
          [of "(test_input 500 Map.empty)\<lparr>amount := None\<rparr>"
              "test_sdk (test_event ''charge.updated'')" test_service]
        createCheckoutSession_missing_field
          [of "(test_input 500 Map.empty)\<lparr>cancelUrl := Some []\<rparr>"
              "test_sdk (test_event ''charge.updated'')" test_service]
  by (simp add: test_input_def MissingRequiredParameterError_def CustomError_new_def)

text \<open>
  C5, as amended. Every call of \<open>createCheckoutSession\<close> that returns a result has made
  exactly one SDK call, whose \<open>success_url\<close> is the input's \<open>successUrl\<close> followed by
  \<open>?session_id={CHECKOUT_SESSION_ID}\<close> and so contains the placeholder; the result's
  \<open>url\<close> and \<open>sessionId\<close> are the \<open>url\<close> and \<open>id\<close> of the session the SDK answered,
  passed through as they are.
\<close>

theorem createCheckoutSession_success:
  assumes "returned (createCheckoutSession sdk svc input) = Inr r"
  shows "\<exists>a c su cu session.
           amount input = Some a \<and> currency input = Some c
           \<and> successUrl input = Some su \<and> cancelUrl input = Some cu
           \<and> trace (createCheckoutSession sdk svc input) =
               [Call_create (create_params a c su cu (otherLineItemData input) (uuidv4 sdk))]
           \<and> success_url (create_params a c su cu (otherLineItemData input) (uuidv4 sdk)) =
               su @ ''?session_id={CHECKOUT_SESSION_ID}''
           \<and> sublist ''{CHECKOUT_SESSION_ID}''
               (success_url (create_params a c su cu (otherLineItemData input) (uuidv4 sdk)))
           \<and> checkout_sessions_create sdk (stripe svc)
               (create_params a c su cu (otherLineItemData input) (uuidv4 sdk)) = Inr session
           \<and> r = \<lparr>url = get_prop session ''url'', sessionId = get_prop session ''id''\<rparr>"
proof -
  from createCheckoutSession_Inr_valid [OF assms]
  obtain a c su cu where v: "amount input = Some a" "a \<noteq> 0" "currency input = Some c" "c \<noteq> []"
    "successUrl input = Some su" "su \<noteq> []" "cancelUrl input = Some cu" "cu \<noteq> []"
    by blast
  let ?P = "create_params a c su cu (otherLineItemData input) (uuidv4 sdk)"
  note eq = createCheckoutSession_valid [OF v, of sdk svc]
  show ?thesis
  proof (cases "checkout_sessions_create sdk (stripe svc) ?P")
    case (Inl e)
    with eq assms show ?thesis by simp
  next
    case (Inr session)
    have s: "success_url ?P = su @ ''?session_id={CHECKOUT_SESSION_ID}''"
      by (simp add: create_params_def)
    have "sublist ''{CHECKOUT_SESSION_ID}'' ((su @ ''?session_id='') @ ''{CHECKOUT_SESSION_ID}'')"
      by (rule sublist_append_leftI)
    then have "sublist ''{CHECKOUT_SESSION_ID}'' (success_url ?P)"
      by (simp add: s)
    with Inr eq assms v s show ?thesis by auto
  qed
qed

text \<open>The call of the spec's example: amount 500, usd, https://x/ok, https://x/cancel.\<close>

theorem createCheckoutSession_success_witness:
  "returned (createCheckoutSession (test_sdk (test_event ''charge.updated'')) test_service
      (test_input 500 Map.empty)) =
     Inr \<lparr>url = JStr ''https://checkout.stripe.com/c/pay/cs_test_1'',
          sessionId = JStr ''cs_test_1''\<rparr>
   \<and> trace (createCheckoutSession (test_sdk (test_event ''charge.updated'')) test_service
        (test_input 500 Map.empty)) =
       [Call_create (create_params 500 ''usd'' ''https://x/ok'' ''https://x/cancel''
          (otherLineItemData (test_input 500 Map.empty))
          ''3b241101-e2bb-4255-8caf-4136c566a962'')]
   \<and> success_url (create_params 500 ''usd'' ''https://x/ok'' ''https://x/cancel''
          (otherLineItemData (test_input 500 Map.empty))
          ''3b241101-e2bb-4255-8caf-4136c566a962'') =
       ''https://x/ok?session_id={CHECKOUT_SESSION_ID}''
   \<and> sublist ''{CHECKOUT_SESSION_ID}'' ''https://x/ok?session_id={CHECKOUT_SESSION_ID}''"
proof -
  have h: "returned (createCheckoutSession (test_sdk (test_event ''charge.updated''))
      test_service (test_input 500 Map.empty)) =
     Inr \<lparr>url = JStr ''https://checkout.stripe.com/c/pay/cs_test_1'',
          sessionId = JStr ''cs_test_1''\<rparr>"
    by (simp add: createCheckoutSession_def createCheckoutSession_try_def test_input_def
        test_sdk_def test_session_def falsy_number_def falsy_string_def get_prop_def)
  show ?thesis
    using h createCheckoutSession_success [OF h]
    by (auto simp: test_input_def test_sdk_def)
qed

text \<open>
  C5 as stated fails: in the spec's example the call succeeds and the returned \<open>url\<close> is
  the session's checkout page, in which the placeholder does not occur.
\<close>

theorem createCheckoutSession_url_counterexample:
  "returned (createCheckoutSession (test_sdk (test_event ''charge.updated'')) test_service
      (test_input 500 Map.empty)) =
     Inr \<lparr>url = JStr ''https://checkout.stripe.com/c/pay/cs_test_1'', sessionId = JStr ''cs_test_1''\<rparr>
   \<and> \<not> sublist ''{CHECKOUT_SESSION_ID}'' ''https://checkout.stripe.com/c/pay/cs_test_1''"
  by (simp add: createCheckoutSession_def createCheckoutSession_try_def test_input_def
      test_sdk_def test_session_def falsy_number_def falsy_string_def get_prop_def sublist_code)

text \<open>
  C6, as amended. For every input that passes validation, the request sent to the SDK has
  payment method \<open>card\<close>, mode \<open>payment\<close> and exactly one line item. Every extra property
  of the input is copied into that line item. Its \<open>price_data\<close> holds the input's
  currency, the product name \<open>Your Product Name\<close> and the input's amount as
  \<open>unit_amount\<close>, and its \<open>quantity\<close> is 1, unless the input itself carries a property
  of that name, whose value then takes its place.
\<close>

theorem createCheckoutSession_request:
  assumes "amount input = Some a" "a \<noteq> 0" "currency input = Some c" "c \<noteq> []"
    "successUrl input = Some su" "su \<noteq> []" "cancelUrl input = Some cu" "cu \<noteq> []"
    and "params = create_params a c su cu (otherLineItemData input) (uuidv4 sdk)"
  shows "trace (createCheckoutSession sdk svc input) =
           Call_create params
           # (case checkout_sessions_create sdk (stripe svc) params of
                Inl e \<Rightarrow> [ConsoleError ''Error creating checkout session:'' e]
              | Inr session \<Rightarrow> [])
         \<and> payment_method_types params = [''card'']
         \<and> mode params = ''payment''
         \<and> line_items params = [line_item a c (otherLineItemData input)]
         \<and> (\<forall>k v. k \<notin> {''amount'', ''currency'', ''successUrl'', ''cancelUrl''}
                   \<and> extra input k = Some v \<longrightarrow>
                 line_item a c (otherLineItemData input) k = Some v)
         \<and> (extra input ''price_data'' = None \<longrightarrow>
              line_item a c (otherLineItemData input) ''price_data'' =
                Some (JObj [''currency'' \<mapsto> JStr c,
                            ''product_data'' \<mapsto> JObj [''name'' \<mapsto> JStr ''Your Product Name''],
                            ''unit_amount'' \<mapsto> JNum a]))
         \<and> (extra input ''quantity'' = None \<longrightarrow>
              line_item a c (otherLineItemData input) ''quantity'' = Some (JNum 1))"
proof -
  have t: "trace (createCheckoutSession sdk svc input) =
           Call_create params
           # (case checkout_sessions_create sdk (stripe svc) params of
                Inl e \<Rightarrow> [ConsoleError ''Error creating checkout session:'' e]
              | Inr session \<Rightarrow> [])"
    unfolding assms(9) by (rule createCheckoutSession_valid_trace [OF assms(1-8)])
  have p: "payment_method_types params = [''card'']" "mode params = ''payment''"
    "line_items params = [line_item a c (otherLineItemData input)]"
    by (simp_all add: assms(9) create_params_def)
  have e: "\<forall>k v. k \<notin> {''amount'', ''currency'', ''successUrl'', ''cancelUrl''}
                   \<and> extra input k = Some v \<longrightarrow>
                 line_item a c (otherLineItemData input) k = Some v"
  proof (intro allI impI)
    fix k v
    assume h: "k \<notin> {''amount'', ''currency'', ''successUrl'', ''cancelUrl''}
                 \<and> extra input k = Some v"
    then have "otherLineItemData input k = Some v"
      using otherLineItemData_present [of k input] by simp
    then show "line_item a c (otherLineItemData input) k = Some v"
      by (rule line_item_spread)
  qed
  have pd: "extra input ''price_data'' = None \<longrightarrow>
              line_item a c (otherLineItemData input) ''price_data'' =
                Some (JObj [''currency'' \<mapsto> JStr c,
                            ''product_data'' \<mapsto> JObj [''name'' \<mapsto> JStr ''Your Product Name''],
                            ''unit_amount'' \<mapsto> JNum a])"
    using line_item_price_data otherLineItemData_absent by blast
  have q: "extra input ''quantity'' = None \<longrightarrow>
              line_item a c (otherLineItemData input) ''quantity'' = Some (JNum 1)"
    using line_item_quantity otherLineItemData_absent by blast
  from t p e pd q show ?thesis by blast
qed

text \<open>An input with the extra property \<open>tax_rates\<close>.\<close>

theorem createCheckoutSession_request_witness:
  "amount (test_input 500 [''tax_rates'' \<mapsto> JArr [JStr ''txr_1'']]) = Some 500
   \<and> (500::int) \<noteq> 0
   \<and> extra (test_input 500 [''tax_rates'' \<mapsto> JArr [JStr ''txr_1'']]) ''tax_rates'' =
       Some (JArr [JStr ''txr_1''])
   \<and> extra (test_input 500 [''tax_rates'' \<mapsto> JArr [JStr ''txr_1'']]) ''price_data'' = None
   \<and> extra (test_input 500 [''tax_rates'' \<mapsto> JArr [JStr ''txr_1'']]) ''quantity'' = None
   \<and> trace (createCheckoutSession (test_sdk (test_event ''charge.updated'')) test_service
        (test_input 500 [''tax_rates'' \<mapsto> JArr [JStr ''txr_1'']])) =
       [Call_create (create_params 500 ''usd'' ''https://x/ok'' ''https://x/cancel''
          (otherLineItemData (test_input 500 [''tax_rates'' \<mapsto> JArr [JStr ''txr_1'']]))
          ''3b241101-e2bb-4255-8caf-4136c566a962'')]
   \<and> line_items (create_params 500 ''usd'' ''https://x/ok'' ''https://x/cancel''
          (otherLineItemData (test_input 500 [''tax_rates'' \<mapsto> JArr [JStr ''txr_1'']]))
          ''3b241101-e2bb-4255-8caf-4136c566a962'') =
       [line_item 500 ''usd''
          (otherLineItemData (test_input 500 [''tax_rates'' \<mapsto> JArr [JStr ''txr_1'']]))]
   \<and> line_item 500 ''usd''
        (otherLineItemData (test_input 500 [''tax_rates'' \<mapsto> JArr [JStr ''txr_1'']]))
        ''tax_rates'' = Some (JArr [JStr ''txr_1''])
   \<and> line_item 500 ''usd''
        (otherLineItemData (test_input 500 [''tax_rates'' \<mapsto> JArr [JStr ''txr_1'']]))
        ''price_data'' =
       Some (JObj [''currency'' \<mapsto> JStr ''usd'',
                   ''product_data'' \<mapsto> JObj [''name'' \<mapsto> JStr ''Your Product Name''],
                   ''unit_amount'' \<mapsto> JNum 500])
   \<and> line_item 500 ''usd''
        (otherLineItemData (test_input 500 [''tax_rates'' \<mapsto> JArr [JStr ''txr_1'']]))
        ''quantity'' = Some (JNum 1)"
proof -
  let ?input = "test_input 500 [''tax_rates'' \<mapsto> JArr [JStr ''txr_1'']]"
  let ?sdk = "test_sdk (test_event ''charge.updated'')"
  have v: "amount ?input = Some 500" "(500::int) \<noteq> 0" "currency ?input = Some ''usd''"
    "''usd'' \<noteq> []" "successUrl ?input = Some ''https://x/ok''" "''https://x/ok'' \<noteq> []"
    "cancelUrl ?input = Some ''https://x/cancel''" "''https://x/cancel'' \<noteq> []"
    by (simp_all add: test_input_def)
  have u: "uuidv4 ?sdk = ''3b241101-e2bb-4255-8caf-4136c566a962''"
    "checkout_sessions_create ?sdk = (\<lambda>client params. Inr test_session)"
    by (simp_all add: test_sdk_def)
  have e: "extra ?input ''tax_rates'' = Some (JArr [JStr ''txr_1''])"
    "extra ?input ''price_data'' = None" "extra ?input ''quantity'' = None"
    by (simp_all add: test_input_def)
  have k: "''tax_rates'' \<notin> {''amount'', ''currency'', ''successUrl'', ''cancelUrl''}"
    by simp
  from createCheckoutSession_request [OF v refl, of ?sdk test_service] v(1,2) e k
  show ?thesis
    unfolding u by simp
qed

text \<open>
  C6 as stated fails: an input whose extra property is \<open>quantity: 5\<close> passes validation,
  and the one line item sent to the SDK has quantity 5, not 1.
\<close>

theorem createCheckoutSession_quantity_counterexample:
  "trace (createCheckoutSession (test_sdk (test_event ''charge.updated'')) test_service
      (test_input 500 [''quantity'' \<mapsto> JNum 5])) =
     [Call_create (create_params 500 ''usd'' ''https://x/ok'' ''https://x/cancel''
        (otherLineItemData (test_input 500 [''quantity'' \<mapsto> JNum 5]))
        ''3b241101-e2bb-4255-8caf-4136c566a962'')]
   \<and> line_items (create_params 500 ''usd'' ''https://x/ok'' ''https://x/cancel''
        (otherLineItemData (test_input 500 [''quantity'' \<mapsto> JNum 5]))
        ''3b241101-e2bb-4255-8caf-4136c566a962'') =
       [line_item 500 ''usd'' (otherLineItemData (test_input 500 [''quantity'' \<mapsto> JNum 5]))]
   \<and> line_item 500 ''usd'' (otherLineItemData (test_input 500 [''quantity'' \<mapsto> JNum 5]))
        ''quantity'' = Some (JNum 5)
   \<and> JNum 5 \<noteq> JNum 1"
  by (simp add: createCheckoutSession_def createCheckoutSession_try_def test_input_def
      test_sdk_def falsy_number_def falsy_string_def create_params_def line_item_def
      otherLineItemData_def map_add_def restrict_map_def)

text \<open>
  C9, as amended. Validation tests truthiness only. An input with \<open>amount = 0\<close> is
  rejected (the call throws and the SDK is not called). For every amount \<open>n < 0\<close> with
  the three other fields non-empty, validation passes: the SDK is called, and the line
  item of the request is the literal with \<open>unit_amount = n\<close> under \<open>price_data\<close>,
  followed by the spread of the input's extra properties. So the line item's
  \<open>price_data\<close> has \<open>unit_amount = n\<close>, unless the input carries an extra property
  named \<open>price_data\<close>, whose value then takes its place.
\<close>

theorem createCheckoutSession_truthiness_only:
  "(amount input0 = Some 0 \<longrightarrow>
      returned (createCheckoutSession sdk svc input0) =
        Inl (CustomErr (CheckoutSessionCreationError ''Failed to create checkout session.''))
      \<and> trace (createCheckoutSession sdk svc input0) =
          [ConsoleError ''Error creating checkout session:''
             (CustomErr (MissingRequiredParameterError
                ''Amount, currency, successUrl, and cancelUrl are required.''))])
   \<and> (n < 0 \<and> amount input = Some n \<and> currency input = Some c \<and> c \<noteq> []
        \<and> successUrl input = Some su \<and> su \<noteq> [] \<and> cancelUrl input = Some cu \<and> cu \<noteq> [] \<longrightarrow>
        trace (createCheckoutSession sdk svc input) =
          Call_create (create_params n c su cu (otherLineItemData input) (uuidv4 sdk))
          # (case checkout_sessions_create sdk (stripe svc)
                    (create_params n c su cu (otherLineItemData input) (uuidv4 sdk)) of
               Inl e \<Rightarrow> [ConsoleError ''Error creating checkout session:'' e]
             | Inr session \<Rightarrow> [])
        \<and> line_items (create_params n c su cu (otherLineItemData input) (uuidv4 sdk)) =
            [[''price_data'' \<mapsto>
                JObj [''currency'' \<mapsto> JStr c,
                      ''product_data'' \<mapsto> JObj [''name'' \<mapsto> JStr ''Your Product Name''],
                      ''unit_amount'' \<mapsto> JNum n],
              ''quantity'' \<mapsto> JNum 1] ++ otherLineItemData input]
        \<and> (extra input ''price_data'' = None \<longrightarrow>
             ([''price_data'' \<mapsto>
                JObj [''currency'' \<mapsto> JStr c,
                      ''product_data'' \<mapsto> JObj [''name'' \<mapsto> JStr ''Your Product Name''],
                      ''unit_amount'' \<mapsto> JNum n],
               ''quantity'' \<mapsto> JNum 1] ++ otherLineItemData input) ''price_data'' =
               Some (JObj [''currency'' \<mapsto> JStr c,
                           ''product_data'' \<mapsto> JObj [''name'' \<mapsto> JStr ''Your Product Name''],
                           ''unit_amount'' \<mapsto> JNum n]))
        \<and> (\<forall>v. extra input ''price_data'' = Some v \<longrightarrow>
             ([''price_data'' \<mapsto>
                JObj [''currency'' \<mapsto> JStr c,
                      ''product_data'' \<mapsto> JObj [''name'' \<mapsto> JStr ''Your Product Name''],
                      ''unit_amount'' \<mapsto> JNum n],
               ''quantity'' \<mapsto> JNum 1] ++ otherLineItemData input) ''price_data'' = Some v))"
proof (intro conjI impI allI)
  assume "amount input0 = Some 0"
  then have i: "amount input0 = None \<or> amount input0 = Some 0
           \<or> currency input0 = None \<or> currency input0 = Some []
           \<or> successUrl input0 = None \<or> successUrl input0 = Some []
           \<or> cancelUrl input0 = None \<or> cancelUrl input0 = Some []" by simp
  show "returned (createCheckoutSession sdk svc input0) =
        Inl (CustomErr (CheckoutSessionCreationError ''Failed to create checkout session.''))"
    by (simp add: createCheckoutSession_invalid [OF i])
  show "trace (createCheckoutSession sdk svc input0) =
          [ConsoleError ''Error creating checkout session:''
             (CustomErr (MissingRequiredParameterError
                ''Amount, currency, successUrl, and cancelUrl are required.''))]"
    by (simp add: createCheckoutSession_invalid [OF i])
next
  assume h: "n < 0 \<and> amount input = Some n \<and> currency input = Some c \<and> c \<noteq> []
        \<and> successUrl input = Some su \<and> su \<noteq> [] \<and> cancelUrl input = Some cu \<and> cu \<noteq> []"
  then have v: "amount input = Some n" "n \<noteq> 0" "currency input = Some c" "c \<noteq> []"
    "successUrl input = Some su" "su \<noteq> []" "cancelUrl input = Some cu" "cu \<noteq> []"
    by simp_all
  show "trace (createCheckoutSession sdk svc input) =
          Call_create (create_params n c su cu (otherLineItemData input) (uuidv4 sdk))
          # (case checkout_sessions_create sdk (stripe svc)
                    (create_params n c su cu (otherLineItemData input) (uuidv4 sdk)) of
               Inl e \<Rightarrow> [ConsoleError ''Error creating checkout session:'' e]
             | Inr session \<Rightarrow> [])"
    by (rule createCheckoutSession_valid_trace [OF v])
  show "line_items (create_params n c su cu (otherLineItemData input) (uuidv4 sdk)) =
            [[''price_data'' \<mapsto>
                JObj [''currency'' \<mapsto> JStr c,
                      ''product_data'' \<mapsto> JObj [''name'' \<mapsto> JStr ''Your Product Name''],
                      ''unit_amount'' \<mapsto> JNum n],
              ''quantity'' \<mapsto> JNum 1] ++ otherLineItemData input]"
    by (simp add: create_params_def line_item_def)
  assume "extra input ''price_data'' = None"
  then show "([''price_data'' \<mapsto>
                JObj [''currency'' \<mapsto> JStr c,
                      ''product_data'' \<mapsto> JObj [''name'' \<mapsto> JStr ''Your Product Name''],
                      ''unit_amount'' \<mapsto> JNum n],
               ''quantity'' \<mapsto> JNum 1] ++ otherLineItemData input) ''price_data'' =
               Some (JObj [''currency'' \<mapsto> JStr c,
                           ''product_data'' \<mapsto> JObj [''name'' \<mapsto> JStr ''Your Product Name''],
                           ''unit_amount'' \<mapsto> JNum n])"
    by (simp add: map_add_def otherLineItemData_absent)
next
  fix v
  assume "n < 0 \<and> amount input = Some n \<and> currency input = Some c \<and> c \<noteq> []
        \<and> successUrl input = Some su \<and> su \<noteq> [] \<and> cancelUrl input = Some cu \<and> cu \<noteq> []"
  assume "extra input ''price_data'' = Some v"
  then have "otherLineItemData input ''price_data'' = Some v"
    using otherLineItemData_present [of "''price_data''" input] by simp
  then show "([''price_data'' \<mapsto>
                JObj [''currency'' \<mapsto> JStr c,
                      ''product_data'' \<mapsto> JObj [''name'' \<mapsto> JStr ''Your Product Name''],
                      ''unit_amount'' \<mapsto> JNum n],
               ''quantity'' \<mapsto> JNum 1] ++ otherLineItemData input) ''price_data'' = Some v"
    by (simp add: map_add_def)
qed

text \<open>Amount 0 is rejected; amount -500 reaches the SDK as \<open>unit_amount\<close>.\<close>

theorem createCheckoutSession_truthiness_only_witness:
  "amount (test_input 0 Map.empty) = Some 0
   \<and> returned (createCheckoutSession (test_sdk (test_event ''charge.updated'')) test_service
        (test_input 0 Map.empty)) =
       Inl (CustomErr (CheckoutSessionCreationError ''Failed to create checkout session.''))
   \<and> (- 500 :: int) < 0
   \<and> amount (test_input (- 500) Map.empty) = Some (- 500)
   \<and> extra (test_input (- 500) Map.empty) ''price_data'' = None
   \<and> trace (createCheckoutSession (test_sdk (test_event ''charge.updated'')) test_service
        (test_input (- 500) Map.empty)) =
       [Call_create (create_params (- 500) ''usd'' ''https://x/ok'' ''https://x/cancel''
          (otherLineItemData (test_input (- 500) Map.empty))
          ''3b241101-e2bb-4255-8caf-4136c566a962'')]
   \<and> hd (line_items (create_params (- 500) ''usd'' ''https://x/ok'' ''https://x/cancel''
          (otherLineItemData (test_input (- 500) Map.empty))
          ''3b241101-e2bb-4255-8caf-4136c566a962'')) ''price_data'' =
       Some (JObj [''currency'' \<mapsto> JStr ''usd'',
                   ''product_data'' \<mapsto> JObj [''name'' \<mapsto> JStr ''Your Product Name''],
                   ''unit_amount'' \<mapsto> JNum (- 500)])
   \<and> extra (test_input (- 500) [''price_data'' \<mapsto> JObj test_price_data]) ''price_data'' =
       Some (JObj test_price_data)
   \<and> hd (line_items (create_params (- 500) ''usd'' ''https://x/ok'' ''https://x/cancel''
          (otherLineItemData (test_input (- 500) [''price_data'' \<mapsto> JObj test_price_data]))
          ''3b241101-e2bb-4255-8caf-4136c566a962'')) ''price_data'' =
       Some (JObj test_price_data)"
proof -
  let ?input = "test_input (- 500) Map.empty"
  let ?input2 = "test_input (- 500) [''price_data'' \<mapsto> JObj test_price_data]"
  let ?sdk = "test_sdk (test_event ''charge.updated'')"
  have z: "amount (test_input 0 Map.empty) = Some 0"
    by (simp add: test_input_def)
  have v: "(- 500 :: int) < 0 \<and> amount ?input = Some (- 500) \<and> currency ?input = Some ''usd''
      \<and> ''usd'' \<noteq> [] \<and> successUrl ?input = Some ''https://x/ok'' \<and> ''https://x/ok'' \<noteq> []
      \<and> cancelUrl ?input = Some ''https://x/cancel'' \<and> ''https://x/cancel'' \<noteq> []"
    by (simp add: test_input_def)
  have v2: "(- 500 :: int) < 0 \<and> amount ?input2 = Some (- 500) \<and> currency ?input2 = Some ''usd''
      \<and> ''usd'' \<noteq> [] \<and> successUrl ?input2 = Some ''https://x/ok'' \<and> ''https://x/ok'' \<noteq> []
      \<and> cancelUrl ?input2 = Some ''https://x/cancel'' \<and> ''https://x/cancel'' \<noteq> []"
    by (simp add: test_input_def)
  have e: "extra ?input ''price_data'' = None"
    by (simp add: test_input_def)
  have e2: "extra ?input2 ''price_data'' = Some (JObj test_price_data)"
    by (simp add: test_input_def)
  have u: "uuidv4 ?sdk = ''3b241101-e2bb-4255-8caf-4136c566a962''"
    "checkout_sessions_create ?sdk = (\<lambda>client params. Inr test_session)"
    by (simp_all add: test_sdk_def)
  from createCheckoutSession_truthiness_only
         [of "test_input 0 Map.empty" ?sdk test_service "- 500" ?input "''usd''"
             "''https://x/ok''" "''https://x/cancel''"] z v e
  have first: "returned (createCheckoutSession ?sdk test_service (test_input 0 Map.empty)) =
       Inl (CustomErr (CheckoutSessionCreationError ''Failed to create checkout session.''))
    \<and> trace (createCheckoutSession ?sdk test_service ?input) =
       [Call_create (create_params (- 500) ''usd'' ''https://x/ok'' ''https://x/cancel''
          (otherLineItemData ?input) ''3b241101-e2bb-4255-8caf-4136c566a962'')]
    \<and> hd (line_items (create_params (- 500) ''usd'' ''https://x/ok'' ''https://x/cancel''
          (otherLineItemData ?input) ''3b241101-e2bb-4255-8caf-4136c566a962'')) ''price_data'' =
       Some (JObj [''currency'' \<mapsto> JStr ''usd'',
                   ''product_data'' \<mapsto> JObj [''name'' \<mapsto> JStr ''Your Product Name''],
                   ''unit_amount'' \<mapsto> JNum (- 500)])"
    unfolding u by simp
  from createCheckoutSession_truthiness_only
         [of "test_input 0 Map.empty" ?sdk test_service "- 500" ?input2 "''usd''"
             "''https://x/ok''" "''https://x/cancel''"] v2 e2
  have second: "hd (line_items (create_params (- 500) ''usd'' ''https://x/ok''
          ''https://x/cancel'' (otherLineItemData ?input2)
          ''3b241101-e2bb-4255-8caf-4136c566a962'')) ''price_data'' =
       Some (JObj test_price_data)"
    unfolding u by simp
  from z v e e2 first second show ?thesis by blast
qed

text \<open>
  C9 as stated fails: an input with amount -500, the three other fields non-empty and an
  extra property \<open>price_data\<close> passes validation, and the line item sent to the SDK
  carries that \<open>price_data\<close>, whose \<open>unit_amount\<close> is 100, not -500.
\<close>

theorem createCheckoutSession_negative_amount_counterexample:
  "(- 500 :: int) < 0
   \<and> trace (createCheckoutSession (test_sdk (test_event ''charge.updated'')) test_service
        (test_input (- 500) [''price_data'' \<mapsto> JObj test_price_data])) =
       [Call_create (create_params (- 500) ''usd'' ''https://x/ok'' ''https://x/cancel''
          (otherLineItemData (test_input (- 500) [''price_data'' \<mapsto> JObj test_price_data]))
          ''3b241101-e2bb-4255-8caf-4136c566a962'')]
   \<and> line_items (create_params (- 500) ''usd'' ''https://x/ok'' ''https://x/cancel''
          (otherLineItemData (test_input (- 500) [''price_data'' \<mapsto> JObj test_price_data]))
          ''3b241101-e2bb-4255-8caf-4136c566a962'') =
       [line_item (- 500) ''usd''
          (otherLineItemData (test_input (- 500) [''price_data'' \<mapsto> JObj test_price_data]))]
   \<and> line_item (- 500) ''usd''
        (otherLineItemData (test_input (- 500) [''price_data'' \<mapsto> JObj test_price_data]))
        ''price_data'' = Some (JObj test_price_data)
   \<and> test_price_data ''unit_amount'' = Some (JNum 100)
   \<and> JNum 100 \<noteq> JNum (- 500)"
  by (simp add: createCheckoutSession_def createCheckoutSession_try_def test_input_def
      test_sdk_def falsy_number_def falsy_string_def create_params_def line_item_def
      otherLineItemData_def map_add_def restrict_map_def test_price_data_def)

section \<open>Checkout session retrieval\<close>

text \<open>
  C7. When \<open>sessionId\<close> is absent or empty, \<open>getCheckoutSession\<close> throws a
  SessionRetrievalError: the MissingRequiredParameterError thrown inside the \<open>try\<close>
  block is caught there, logged and replaced, and the SDK is not called. For a non-empty
  \<open>sessionId\<close> the session the SDK retrieves is returned as it is (and an error of the
  SDK is replaced by a SessionRetrievalError too).
\<close>

theorem getCheckoutSession_result:
  "(input = None \<or> input = Some [] \<longrightarrow>
      returned (getCheckoutSession sdk svc input) =
        Inl (CustomErr \<lparr>name = ''SessionRetrievalError'',
                        message = ''Failed to retrieve session.'', code = 400\<rparr>)
      \<and> trace (getCheckoutSession sdk svc input) =
          [ConsoleError ''Error retrieving session:''
             (CustomErr (MissingRequiredParameterError ''Session ID is required.''))])
   \<and> (\<forall>sid session. sid \<noteq> [] \<and> checkout_sessions_retrieve sdk (stripe svc) sid = Inr session \<longrightarrow>
        returned (getCheckoutSession sdk svc (Some sid)) = Inr session
        \<and> trace (getCheckoutSession sdk svc (Some sid)) = [Call_retrieve sid])
   \<and> (\<forall>sid e. sid \<noteq> [] \<and> checkout_sessions_retrieve sdk (stripe svc) sid = Inl e \<longrightarrow>
        returned (getCheckoutSession sdk svc (Some sid)) =
          Inl (CustomErr (SessionRetrievalError ''Failed to retrieve session.'')))"
  by (auto simp: getCheckoutSession_def getCheckoutSession_try_def falsy_string_def
      SessionRetrievalError_def CustomError_new_def)

text \<open>An empty id, and the id of the test session.\<close>

theorem getCheckoutSession_result_witness:
  "returned (getCheckoutSession (test_sdk (test_event ''charge.updated'')) test_service
      (Some [])) =
     Inl (CustomErr \<lparr>name = ''SessionRetrievalError'',
                     message = ''Failed to retrieve session.'', code = 400\<rparr>)
   \<and> ''cs_test_1'' \<noteq> []
   \<and> checkout_sessions_retrieve (test_sdk (test_event ''charge.updated''))
        (stripe test_service) ''cs_test_1'' = Inr test_session
   \<and> returned (getCheckoutSession (test_sdk (test_event ''charge.updated'')) test_service
        (Some ''cs_test_1'')) = Inr test_session
   \<and> trace (getCheckoutSession (test_sdk (test_event ''charge.updated'')) test_service
        (Some ''cs_test_1'')) = [Call_retrieve ''cs_test_1'']"
proof -
  have r: "checkout_sessions_retrieve (test_sdk (test_event ''charge.updated''))
        (stripe test_service) ''cs_test_1'' = Inr test_session"
    by (simp add: test_sdk_def)
  from getCheckoutSession_result
         [of "Some []" "test_sdk (test_event ''charge.updated'')" test_service] r
  show ?thesis
    by simp
qed

section \<open>The service's fields\<close>

text \<open>
  C10. Each of the three public operations leaves the service's fields, the SDK client
  and the webhook secret, as they were, whether it returns or throws: only the
  constructor assigns them.
\<close>

theorem operations_preserve_service:
  "service (createCheckoutSession sdk svc input) = svc
   \<and> service (getCheckoutSession sdk svc sid) = svc
   \<and> service (handleWebhook sdk svc payload signature) = svc"
  by (simp add: createCheckoutSession_def getCheckoutSession_def handleWebhook_def
      split: prod.split sum.split)

text \<open>A successful creation, a failed retrieval and a rejected webhook.\<close>

theorem operations_preserve_service_witness:
  "service (createCheckoutSession (test_sdk (test_event ''charge.updated'')) test_service
      (test_input 500 Map.empty)) = test_service
   \<and> service (getCheckoutSession (test_sdk (test_event ''charge.updated'')) test_service
        None) = test_service
   \<and> service (handleWebhook (test_sdk (test_event ''charge.updated'')) test_service
        ''{}'' ''t=1,v1=bad'') = test_service"
  using operations_preserve_service
          [of "test_sdk (test_event ''charge.updated'')" test_service
              "test_input 500 Map.empty" None "''{}''" "''t=1,v1=bad''"]
  by simp

end
